theory Spec2Isabelle
  imports
    Complex_Main
    "HOL-Library.Word"
    "HOL-Library.Char_ord"
    "HOL-Library.List_Lexorder"
    "HOL-Library.Product_Lexorder"
begin

chapter \<open>The ingestion-and-aggregation pipeline of the dashboard (app.py)\<close>

text \<open>
  The pipeline of \<^verbatim>\<open>app.py\<close> reads three CSV files (\<^verbatim>\<open>read_csv_any\<close>), restricts the
  incident and the weather table to one region and derives calendar columns
  (\<^verbatim>\<open>preprocess_fire\<close>, \<^verbatim>\<open>preprocess_weather\<close>), groups them, and joins the daily and the
  monthly summaries (\<^verbatim>\<open>make_daily_merge\<close>, the monthly merge of \<^verbatim>\<open>main\<close>).

  The program is written against Python's codecs and the pandas library. Every library
  call of the source is modelled by a function of the same name that follows the
  library's documented behaviour; what the library leaves to data outside the repository
  (the multi-byte codec tables, the CSV tokenizer, the free-format timestamp parser) is a
  parameter of the model. Exceptions are values: a function that can raise returns
  \<open>exn + 'a\<close>, with \<open>Inl\<close> for the exception.

  The source names its derived columns in Korean. The theory is ASCII, so those columns
  carry their romanised names: \<open>yeondo\<close> (year), \<open>wol\<close> (month), \<open>balsaengil\<close> (day of
  occurrence), \<open>hwajaegeonsu\<close> (number of fires), \<open>geonsu\<close> (count), \<open>jijeommyeong\<close>
  (station name), \<open>ilsi\<close> (timestamp), \<open>naljja\<close> (date), \<open>gion\<close> (temperature),
  \<open>seupdo\<close> (humidity), \<open>gangsuryang\<close> (precipitation). Text cells are \<open>string\<close>s holding
  the UTF-8 bytes of the Python string: equality and the lexicographic order of the bytes
  are equality and the code-point order of the Python strings.
\<close>

section \<open>Exceptions\<close>

datatype exn =
    OSError
  | UnicodeDecodeError
  | LookupError
  | EmptyDataError
  | ParserError
  | ValueError
  | OutOfBoundsDatetime

section \<open>The encoding-resilient reader: \<^verbatim>\<open>read_csv_any\<close> (app.py, lines 12 to 27)\<close>

type_synonym byte = "8 word"

text \<open>A Python \<^verbatim>\<open>str\<close> is a sequence of Unicode code points.\<close>

type_synonym pystr = "nat list"

text \<open>The error handlers the source passes to \<^verbatim>\<open>bytes.decode\<close>: the default and
  \<^verbatim>\<open>errors="ignore"\<close>.\<close>

datatype errors = strict | ignore

text \<open>
  A single-byte codec is a table from bytes to code points. Under \<open>strict\<close> a byte
  without an entry raises; under \<open>ignore\<close> it is dropped and decoding goes on.
\<close>

fun charmap_decode :: "(byte \<Rightarrow> nat option) \<Rightarrow> errors \<Rightarrow> byte list \<Rightarrow> exn + pystr" where
  "charmap_decode tab errs [] = Inr []"
| "charmap_decode tab errs (b # bs) =
     (case tab b of
        Some c \<Rightarrow>
          (case charmap_decode tab errs bs of
             Inl e \<Rightarrow> Inl e
           | Inr cs \<Rightarrow> Inr (c # cs))
      | None \<Rightarrow>
          (case errs of
             strict \<Rightarrow> Inl UnicodeDecodeError
           | ignore \<Rightarrow> charmap_decode tab errs bs))"

text \<open>latin1 (ISO 8859-1) gives byte \<open>b\<close> the code point \<open>b\<close>; ASCII stops at 127.\<close>

definition latin1_table :: "byte \<Rightarrow> nat option" where
  "latin1_table b = Some (unat b)"

definition ascii_table :: "byte \<Rightarrow> nat option" where
  "ascii_table b = (if unat b < 128 then Some (unat b) else None)"

text \<open>
  \<^verbatim>\<open>raw.decode(enc, errors)\<close>. The tables of the other codecs (\<^verbatim>\<open>utf-8-sig\<close>, \<^verbatim>\<open>cp949\<close>,
  \<^verbatim>\<open>euc-kr\<close>, and whatever name a caller passes) are not part of the repository: \<open>codecs\<close>
  is their strict decoder, which also answers an unknown name with \<open>LookupError\<close>.
  The source decodes with \<^verbatim>\<open>errors="ignore"\<close> under latin1 only.
\<close>

definition bytes_decode ::
  "(string \<Rightarrow> byte list \<Rightarrow> exn + pystr) \<Rightarrow> string \<Rightarrow> errors \<Rightarrow> byte list \<Rightarrow> exn + pystr" where
  "bytes_decode codecs enc errs raw =
     (if enc = ''latin1'' then charmap_decode latin1_table errs raw else codecs enc raw)"



definition default_encodings :: "string list" where
  "default_encodings = [''utf-8-sig'', ''cp949'', ''euc-kr'', ''latin1'']"



text \<open>
  Two instances of the parameters, for concrete runs. \<open>ascii_codecs\<close> decodes ASCII
  content, on which utf-8-sig, cp949 and euc-kr all agree with ASCII, and raises on any
  other byte; it is used on ASCII content only. \<open>accept_all\<close> is the most permissive
  tokenizer: it takes every text it is given as a table of one cell.
\<close>

definition ascii_codecs :: "string \<Rightarrow> byte list \<Rightarrow> exn + pystr" where
  "ascii_codecs enc raw =
     (if enc \<in> set default_encodings then charmap_decode ascii_table strict raw
      else Inl LookupError)"


section \<open>Calendar dates and timestamps\<close>

text \<open>A date is (year, month, day); the lexicographic order of the triples is the
  order of the calendar.\<close>

type_synonym date = "int \<times> int \<times> int"

definition year_of :: "date \<Rightarrow> int" where
  "year_of d = fst d"

definition month_of :: "date \<Rightarrow> int" where
  "month_of d = fst (snd d)"

definition day_of :: "date \<Rightarrow> int" where
  "day_of d = snd (snd d)"

definition is_leap :: "int \<Rightarrow> bool" where
  "is_leap y = (y mod 4 = 0 \<and> (y mod 100 \<noteq> 0 \<or> y mod 400 = 0))"

definition days_in_month :: "int \<Rightarrow> int \<Rightarrow> int" where
  "days_in_month y m =
     (if m = 2 then (if is_leap y then 29 else 28)
      else if m = 4 \<or> m = 6 \<or> m = 9 \<or> m = 11 then 30
      else 31)"

text \<open>What \<^verbatim>\<open>datetime.date(y, m, d)\<close> accepts (\<^verbatim>\<open>MINYEAR\<close> is 1, \<^verbatim>\<open>MAXYEAR\<close> 9999).\<close>

definition valid_date :: "date \<Rightarrow> bool" where
  "valid_date dt =
     (1 \<le> year_of dt \<and> year_of dt \<le> 9999 \<and> 1 \<le> month_of dt \<and> month_of dt \<le> 12 \<and>
      1 \<le> day_of dt \<and> day_of dt \<le> days_in_month (year_of dt) (month_of dt))"

text \<open>
  \<^verbatim>\<open>to_datetime\<close> returns nanosecond timestamps (pandas 1 and 2): \<^verbatim>\<open>Timestamp.min\<close> is
  1677-09-21 00:12:43.145224193 and \<^verbatim>\<open>Timestamp.max\<close> is 2262-04-11 23:47:16.854775807,
  so the midnights that can be stored are those of 1677-09-22 to 2262-04-11.
\<close>

definition first_midnight :: date where
  "first_midnight = (1677, 9, 22)"

definition last_midnight :: date where
  "last_midnight = (2262, 4, 11)"

definition in_bounds :: "date \<Rightarrow> bool" where
  "in_bounds dt = (first_midnight \<le> dt \<and> dt \<le> last_midnight)"

section \<open>\<^verbatim>\<open>pd.to_datetime(..., format="%Y%m%d")\<close>\<close>

text \<open>
  pandas matches the text against the regular expression that \<^verbatim>\<open>_strptime.TimeRE\<close> builds
  for the format,
  \<^verbatim>\<open>(?P<Y>\d\d\d\d)(?P<m>1[0-2]|0[1-9]|[1-9])(?P<d>3[0-1]|[1-2]\d|0[1-9]|[1-9]| [1-9])\<close>,
  with \<^verbatim>\<open>re.match\<close>: the first match in the order of the alternatives, backtracking from
  the day into the month. Each group below returns its matches of a prefix, in that
  order, as (value, rest of the text).
\<close>

definition in_range :: "char \<Rightarrow> char \<Rightarrow> char \<Rightarrow> bool" where
  "in_range lo hi c = (lo \<le> c \<and> c \<le> hi)"

definition is_digit :: "char \<Rightarrow> bool" where
  "is_digit c = in_range (CHR ''0'') (CHR ''9'') c"

definition digit_val :: "char \<Rightarrow> int" where
  "digit_val c = int (of_char c) - 48"

text \<open>An alternative of two characters, each from a range, and one of a single character.
  \<^verbatim>\<open>int(" 5")\<close> is 5: a leading blank counts nothing.\<close>

fun two_chars :: "char \<Rightarrow> char \<Rightarrow> char \<Rightarrow> char \<Rightarrow> string \<Rightarrow> (int \<times> string) list" where
  "two_chars lo1 hi1 lo2 hi2 (a # b # rest) =
     (if in_range lo1 hi1 a \<and> in_range lo2 hi2 b
      then [((if a = CHR '' '' then 0 else 10 * digit_val a) + digit_val b, rest)]
      else [])"
| "two_chars lo1 hi1 lo2 hi2 _ = []"

fun one_char :: "char \<Rightarrow> char \<Rightarrow> string \<Rightarrow> (int \<times> string) list" where
  "one_char lo hi (a # rest) = (if in_range lo hi a then [(digit_val a, rest)] else [])"
| "one_char lo hi [] = []"

fun re_Y :: "string \<Rightarrow> (int \<times> string) list" where
  "re_Y (a # b # c # d # rest) =
     (if is_digit a \<and> is_digit b \<and> is_digit c \<and> is_digit d
      then [(1000 * digit_val a + 100 * digit_val b + 10 * digit_val c + digit_val d, rest)]
      else [])"
| "re_Y _ = []"

definition re_m :: "string \<Rightarrow> (int \<times> string) list" where
  "re_m s =
     two_chars (CHR ''1'') (CHR ''1'') (CHR ''0'') (CHR ''2'') s @
     two_chars (CHR ''0'') (CHR ''0'') (CHR ''1'') (CHR ''9'') s @
     one_char (CHR ''1'') (CHR ''9'') s"

definition re_d :: "string \<Rightarrow> (int \<times> string) list" where
  "re_d s =
     two_chars (CHR ''3'') (CHR ''3'') (CHR ''0'') (CHR ''1'') s @
     two_chars (CHR ''1'') (CHR ''2'') (CHR ''0'') (CHR ''9'') s @
     two_chars (CHR ''0'') (CHR ''0'') (CHR ''1'') (CHR ''9'') s @
     one_char (CHR ''1'') (CHR ''9'') s @
     two_chars (CHR '' '') (CHR '' '') (CHR ''1'') (CHR ''9'') s"

text \<open>All matches of the whole pattern, the one \<^verbatim>\<open>re.match\<close> returns first.\<close>

definition format_regex_matches :: "string \<Rightarrow> (date \<times> string) list" where
  "format_regex_matches s =
     concat (map (\<lambda>(y, r1).
       concat (map (\<lambda>(m, r2).
         map (\<lambda>(d, r3). ((y, m, d), r3)) (re_d r2)) (re_m r1))) (re_Y s))"

text \<open>
  The three ways the parse of one text raises \<open>ValueError\<close>: no match ("does not match
  format"), a match that stops before the end ("unconverted data remains"), and a
  matched year, month and day that are no date ("day is out of range for month").
\<close>

definition strptime_Ymd :: "string \<Rightarrow> exn + date" where
  "strptime_Ymd s =
     (case format_regex_matches s of
        [] \<Rightarrow> Inl ValueError
      | (dt, rest) # _ \<Rightarrow>
          if rest \<noteq> [] then Inl ValueError
          else if \<not> valid_date dt then Inl ValueError
          else Inr dt)"

text \<open>The texts pandas takes for a missing value (\<^verbatim>\<open>nat_strings\<close>), besides the empty one.\<close>

definition nat_strings :: "string list" where
  "nat_strings = [''NaT'', ''nat'', ''NAT'', ''nan'', ''NaN'', ''NAN'']"

definition is_null_text :: "string \<Rightarrow> bool" where
  "is_null_text s = (s = [] \<or> s \<in> set nat_strings)"

text \<open>One element: a null text becomes \<open>NaT\<close> (\<open>None\<close>) and raises nothing; any other text
  is parsed, and a date outside the timestamp range raises \<open>OutOfBoundsDatetime\<close>.\<close>

definition to_datetime_elem :: "string \<Rightarrow> exn + date option" where
  "to_datetime_elem s =
     (if is_null_text s then Inr None
      else case strptime_Ymd s of
             Inl e \<Rightarrow> Inl e
           | Inr dt \<Rightarrow> if in_bounds dt then Inr (Some dt) else Inl OutOfBoundsDatetime)"

text \<open>A column is converted element by element; with \<^verbatim>\<open>errors="raise"\<close>, the default, the
  first exception ends the call.\<close>

fun traverse :: "('a \<Rightarrow> exn + 'b) \<Rightarrow> 'a list \<Rightarrow> exn + 'b list" where
  "traverse f [] = Inr []"
| "traverse f (x # xs) =
     (case f x of
        Inl e \<Rightarrow> Inl e
      | Inr y \<Rightarrow> (case traverse f xs of Inl e \<Rightarrow> Inl e | Inr ys \<Rightarrow> Inr (y # ys)))"

definition to_datetime_Ymd :: "string list \<Rightarrow> exn + date option list" where
  "to_datetime_Ymd col = traverse to_datetime_elem col"

section \<open>Cells, column types and \<^verbatim>\<open>astype(str)\<close>\<close>

text \<open>
  The date column of the incident file holds what \<^verbatim>\<open>read_csv\<close> found in it: nothing
  (\<open>NaN\<close>), an integer, or a text. The column's dtype is the one \<^verbatim>\<open>read_csv\<close> infers:
  \<^verbatim>\<open>object\<close> when a cell is a text, else \<^verbatim>\<open>float64\<close> when a cell is missing (an integer
  column cannot hold \<open>NaN\<close>), else \<^verbatim>\<open>int64\<close>.
\<close>

datatype cell = NaN | IntV int | StrV string

datatype dtype = int64 | float64 | object

fun is_StrV :: "cell \<Rightarrow> bool" where
  "is_StrV (StrV _) = True"
| "is_StrV _ = False"

definition infer_dtype :: "cell list \<Rightarrow> dtype" where
  "infer_dtype col =
     (if list_ex is_StrV col then object
      else if NaN \<in> set col then float64
      else int64)"

definition digit_char :: "nat \<Rightarrow> char" where
  "digit_char d = ''0123456789'' ! d"

fun decimal :: "nat \<Rightarrow> string" where
  "decimal n =
     (if n < 10 then [digit_char n]
      else decimal (n div 10) @ [digit_char (n mod 10)])"

definition str_int :: "int \<Rightarrow> string" where
  "str_int i = (if i < 0 then CHR ''-'' # decimal (nat (- i)) else decimal (nat i))"

text \<open>
  \<^verbatim>\<open>astype(str)\<close> applies \<^verbatim>\<open>str\<close> to every value: a missing value becomes \<^verbatim>\<open>"nan"\<close>, and an
  integer stored in a \<^verbatim>\<open>float64\<close> column is a float, whose text ends in \<^verbatim>\<open>".0"\<close> (from 1e16
  on Python writes an exponent instead; either way the text is not made of digits).
\<close>

fun astype_str :: "dtype \<Rightarrow> cell \<Rightarrow> string" where
  "astype_str dt NaN = ''nan''"
| "astype_str dt (IntV i) = (if dt = float64 then str_int i @ ''.0'' else str_int i)"
| "astype_str dt (StrV s) = s"

section \<open>Grouping, sorting and merging\<close>

text \<open>
  \<^verbatim>\<open>df.groupby(by)\<close> with the defaults \<^verbatim>\<open>sort=True\<close> and \<^verbatim>\<open>dropna=True\<close>: one group per
  key that occurs, in ascending order of the keys; a row whose key is missing belongs to
  no group. A key made of several columns is missing when one of them is.
\<close>

definition groupby :: "('r \<Rightarrow> 'k::linorder option) \<Rightarrow> 'r list \<Rightarrow> ('k \<times> 'r list) list" where
  "groupby by df =
     map (\<lambda>k. (k, filter (\<lambda>r. by r = Some k) df)) (sort (remdups (List.map_filter by df)))"

text \<open>\<^verbatim>\<open>.size().reset_index(name=...)\<close>: the key and the number of rows of its group.\<close>

definition groupby_size :: "('r \<Rightarrow> 'k::linorder option) \<Rightarrow> 'r list \<Rightarrow> ('k \<times> nat) list" where
  "groupby_size by df = map (\<lambda>(k, g). (k, length g)) (groupby by df)"

text \<open>\<^verbatim>\<open>.agg(...).reset_index()\<close>: the key and the reduction of its group.\<close>

definition groupby_agg ::
  "('r \<Rightarrow> 'k::linorder option) \<Rightarrow> ('r list \<Rightarrow> 'v) \<Rightarrow> 'r list \<Rightarrow> ('k \<times> 'v) list" where
  "groupby_agg by f df = map (\<lambda>(k, g). (k, f g)) (groupby by df)"

definition both :: "'a option \<Rightarrow> 'b option \<Rightarrow> ('a \<times> 'b) option" where
  "both a b = (case a of None \<Rightarrow> None | Some x \<Rightarrow> (case b of None \<Rightarrow> None | Some y \<Rightarrow> Some (x, y)))"

text \<open>
  \<^verbatim>\<open>.sort_values(col, ascending=False)\<close>. pandas reverses the column, sorts it ascending
  and reverses the result, so that a sort which keeps equal values in place leaves rows of
  equal value in the order they came in. The default kind (\<^verbatim>\<open>quicksort\<close>) promises the
  order of the values only; the model takes the order the insertion sort of numpy gives on
  short arrays, which keeps equal values in place.
\<close>

definition sort_values_desc :: "('r \<Rightarrow> nat) \<Rightarrow> 'r list \<Rightarrow> 'r list" where
  "sort_values_desc col df = rev (sort_key col (rev df))"

text \<open>
  \<^verbatim>\<open>pd.merge(left, right, ..., how="inner")\<close>: one row for every pair of a left and a right
  row with equal keys, in the order of the left rows. A merged row is the pair of its two
  rows, hence holds every column of both.
\<close>

definition merge_inner :: "('l \<Rightarrow> 'k) \<Rightarrow> ('r \<Rightarrow> 'k) \<Rightarrow> 'l list \<Rightarrow> 'r list \<Rightarrow> ('l \<times> 'r) list" where
  "merge_inner left_on right_on left right =
     concat (map (\<lambda>l. map (Pair l) (filter (\<lambda>r. right_on r = left_on l) right)) left)"

section \<open>The incident table: \<^verbatim>\<open>preprocess_fire\<close> (app.py, lines 41 to 68)\<close>

text \<open>
  A row of the incident file, with the columns the pipeline reads: the region, the
  sub-region, the cause category, the year, the month and the compact date. A cell that
  is empty in the file is missing (\<open>None\<close>, and \<open>NaN\<close> in the date column).
\<close>

record fire_row =
  GRNDS_CTPV_NM :: "string option"
  GRNDS_SGG_NM :: "string option"
  IGTN_DMNT_LCLSF_NM :: "string option"
  OCRN_YR :: "int option"
  OCRN_MM :: "int option"
  OCRN_YMD :: cell

text \<open>A row of the derived table: the columns of the file and the three columns that
  lines 45 to 47 add.\<close>

record seoul_row = fire_row +
  yeondo :: "int option"
  wol :: "int option"
  balsaengil :: "date option"

text \<open>The region literal of line 43, in UTF-8.\<close>

definition seoul_teukbyeolsi :: string where
  "seoul_teukbyeolsi =
     [CHR 0xEC, CHR 0x84, CHR 0x9C, CHR 0xEC, CHR 0x9A, CHR 0xB8, CHR 0xED, CHR 0x8A, CHR 0xB9,
      CHR 0xEB, CHR 0xB3, CHR 0x84, CHR 0xEC, CHR 0x8B, CHR 0x9C]"

text \<open>Line 43: the rows whose region equals the literal. A missing region equals no text.\<close>

definition filter_region :: "(('a fire_row_scheme) \<Rightarrow> bool)" where
  "filter_region r = (GRNDS_CTPV_NM r = Some seoul_teukbyeolsi)"

definition select_seoul :: "'a fire_row_scheme list \<Rightarrow> 'a fire_row_scheme list" where
  "select_seoul fire = filter filter_region fire"

text \<open>Lines 45 to 47 on one row: the year and the month are copies of the file's year and
  month columns, the day of occurrence is the parsed date column.\<close>

definition derive_row :: "fire_row \<Rightarrow> date option \<Rightarrow> seoul_row" where
  "derive_row r d =
     \<lparr>GRNDS_CTPV_NM = GRNDS_CTPV_NM r, GRNDS_SGG_NM = GRNDS_SGG_NM r,
      IGTN_DMNT_LCLSF_NM = IGTN_DMNT_LCLSF_NM r, OCRN_YR = OCRN_YR r, OCRN_MM = OCRN_MM r,
      OCRN_YMD = OCRN_YMD r,
      yeondo = OCRN_YR r, wol = OCRN_MM r, balsaengil = d\<rparr>"

text \<open>The text of a row's date cell, as line 47 hands it to the parser. The row selection
  of line 43 keeps the dtype of the whole column.\<close>

definition ymd_text :: "fire_row list \<Rightarrow> fire_row \<Rightarrow> string" where
  "ymd_text fire r = astype_str (infer_dtype (map OCRN_YMD fire)) (OCRN_YMD r)"

text \<open>The four tables the function returns: the derived rows, the monthly counts, the
  counts by cause and the counts by sub-region, the last two ranked.\<close>

type_synonym fire_tables =
  "seoul_row list \<times> ((int \<times> int) \<times> nat) list \<times> (string \<times> nat) list \<times> (string \<times> nat) list"

definition preprocess_fire :: "fire_row list \<Rightarrow> exn + fire_tables" where
  "preprocess_fire fire =
     (let seoul0 = select_seoul fire in
      case to_datetime_Ymd (map (ymd_text fire) seoul0) of
        Inl e \<Rightarrow> Inl e
      | Inr days \<Rightarrow>
          let seoul = map2 derive_row seoul0 days;
              monthly = groupby_size (\<lambda>r. both (yeondo r) (wol r)) seoul;
              cause = sort_values_desc snd (groupby_size IGTN_DMNT_LCLSF_NM seoul);
              region = sort_values_desc snd (groupby_size GRNDS_SGG_NM seoul)
          in Inr (seoul, monthly, cause, region))"

section \<open>The weather table: \<^verbatim>\<open>preprocess_weather\<close> (app.py, lines 71 to 107)\<close>

text \<open>A timestamp is a date and the time of day, counted from midnight.\<close>

type_synonym timestamp = "date \<times> nat"

text \<open>
  A row of the weather file: the station, the timestamp, and the three measurements,
  exact numbers here (the rounding of the floating-point sums and quotients is not
  modelled). Line 74 replaces the text of the timestamp by its parsed value, so the type
  of that column is a parameter of the row.
\<close>

record 't weather_row =
  jijeommyeong :: "string option"
  ilsi :: 't
  gion :: "rat option"
  seupdo :: "rat option"
  gangsuryang :: "rat option"

text \<open>The derived row: lines 76 to 78 add the year, the month and the date of the
  timestamp (the columns named as in the incident table; \<open>w_\<close> tells them apart here).\<close>

record w_row = "timestamp option weather_row" +
  w_yeondo :: "int option"
  w_wol :: "int option"
  naljja :: "date option"

definition seoul_station :: string where
  "seoul_station = [CHR 0xEC, CHR 0x84, CHR 0x9C, CHR 0xEC, CHR 0x9A, CHR 0xB8]"

definition derive_w_row :: "cell weather_row \<Rightarrow> timestamp option \<Rightarrow> w_row" where
  "derive_w_row r t =
     \<lparr>jijeommyeong = jijeommyeong r, ilsi = t, gion = gion r, seupdo = seupdo r,
      gangsuryang = gangsuryang r,
      w_yeondo = map_option (\<lambda>ts. year_of (fst ts)) t,
      w_wol = map_option (\<lambda>ts. month_of (fst ts)) t,
      naljja = map_option fst t\<rparr>"

text \<open>The reductions \<^verbatim>\<open>"mean"\<close> and \<^verbatim>\<open>"sum"\<close> skip missing values: the mean of no value is
  missing, the sum of no value is 0.\<close>

fun present :: "'a option list \<Rightarrow> 'a list" where
  "present [] = []"
| "present (None # xs) = present xs"
| "present (Some x # xs) = x # present xs"

definition mean_skipna :: "rat option list \<Rightarrow> rat option" where
  "mean_skipna xs =
     (if present xs = [] then None
      else Some (sum_list (present xs) / of_nat (length (present xs))))"

definition sum_skipna :: "rat option list \<Rightarrow> rat" where
  "sum_skipna xs = sum_list (present xs)"

record weather_agg =
  mean_gion :: "rat option"
  mean_seupdo :: "rat option"
  sum_gangsuryang :: rat

text \<open>The dictionary of lines 84 to 88 and 97 to 101, applied to the rows of a group.\<close>

definition agg_weather :: "'a w_row_scheme list \<Rightarrow> weather_agg" where
  "agg_weather g =
     \<lparr>mean_gion = mean_skipna (map gion g), mean_seupdo = mean_skipna (map seupdo g),
      sum_gangsuryang = sum_skipna (map gangsuryang g)\<rparr>"

type_synonym weather_tables =
  "w_row list \<times> ((int \<times> int) \<times> weather_agg) list \<times> (date \<times> weather_agg) list"

text \<open>
  Line 74 calls \<^verbatim>\<open>pd.to_datetime\<close> without a format: pandas guesses the format from the
  column. That parser is the parameter \<open>to_datetime\<close>, from the column to the timestamps
  or an exception. Line 105 turns the dates of the daily keys back into midnight
  timestamps, which changes no key.
\<close>

definition preprocess_weather ::
  "(cell list \<Rightarrow> exn + timestamp option list) \<Rightarrow> cell weather_row list \<Rightarrow> exn + weather_tables" where
  "preprocess_weather to_datetime weather =
     (let w0 = filter (\<lambda>r. jijeommyeong r = Some seoul_station) weather in
      case to_datetime (map ilsi w0) of
        Inl e \<Rightarrow> Inl e
      | Inr stamps \<Rightarrow>
          let w = map2 derive_w_row w0 stamps;
              monthly = groupby_agg (\<lambda>r. both (w_yeondo r) (w_wol r)) agg_weather w;
              daily = groupby_agg naljja agg_weather w
          in Inr (w, monthly, daily))"

text \<open>An instance of the parameter for concrete runs: it reads the ISO form
  \<^verbatim>\<open>YYYY-MM-DD\<close>, which pandas takes for the midnight of that day, and nothing else.\<close>

definition iso_day :: "cell \<Rightarrow> exn + timestamp option" where
  "iso_day c =
     (case c of
        NaN \<Rightarrow> Inr None
      | IntV _ \<Rightarrow> Inl ValueError
      | StrV s \<Rightarrow>
          if length s = 10 \<and> s ! 4 = CHR ''-'' \<and> s ! 7 = CHR ''-'' then
            (case to_datetime_elem (take 4 s @ take 2 (drop 5 s) @ drop 8 s) of
               Inl e \<Rightarrow> Inl e
             | Inr d \<Rightarrow> Inr (map_option (\<lambda>x. (x, 0)) d))
          else Inl ValueError)"

definition iso_days :: "cell list \<Rightarrow> exn + timestamp option list" where
  "iso_days col = traverse iso_day col"

section \<open>The joins: \<^verbatim>\<open>make_daily_merge\<close> (lines 110 to 121) and \<^verbatim>\<open>main\<close> (lines 327 to 339)\<close>

definition daily_fire :: "'a seoul_row_scheme list \<Rightarrow> (date \<times> nat) list" where
  "daily_fire seoul_fire = groupby_size balsaengil seoul_fire"

definition make_daily_merge ::
  "'a seoul_row_scheme list \<Rightarrow> (date \<times> 'w) list \<Rightarrow> ((date \<times> nat) \<times> (date \<times> 'w)) list" where
  "make_daily_merge seoul_fire daily_weather =
     merge_inner fst fst (daily_fire seoul_fire) daily_weather"

definition monthly_merge ::
  "((int \<times> int) \<times> nat) list \<Rightarrow> ((int \<times> int) \<times> 'w) list
     \<Rightarrow> (((int \<times> int) \<times> nat) \<times> ((int \<times> int) \<times> 'w)) list" where
  "monthly_merge monthly_fire monthly_weather = merge_inner fst fst monthly_fire monthly_weather"

text \<open>Lines 327 to 339 of \<^verbatim>\<open>main\<close>: both tables are preprocessed, then merged by month
  and by day.\<close>

definition main_merges ::
  "(cell list \<Rightarrow> exn + timestamp option list) \<Rightarrow> fire_row list \<Rightarrow> cell weather_row list
     \<Rightarrow> exn + ((((int \<times> int) \<times> nat) \<times> ((int \<times> int) \<times> weather_agg)) list
              \<times> ((date \<times> nat) \<times> (date \<times> weather_agg)) list)" where
  "main_merges to_datetime fire weather =
     (case preprocess_fire fire of
        Inl e \<Rightarrow> Inl e
      | Inr (seoul_fire, monthly_fire, cause_fire, region_fire) \<Rightarrow>
          (case preprocess_weather to_datetime weather of
             Inl e \<Rightarrow> Inl e
           | Inr (w_all, monthly_weather, daily_weather) \<Rightarrow>
               Inr (monthly_merge monthly_fire monthly_weather,
                    make_daily_merge seoul_fire daily_weather)))"

section \<open>The properties of the specification, in its own words\<close>

text \<open>An eight-digit date text \<^verbatim>\<open>YYYYMMDD\<close>: the date its digits spell, and whether that
  is a calendar date that a timestamp can hold.\<close>

definition digits_val :: "string \<Rightarrow> int" where
  "digits_val s = foldl (\<lambda>a c. 10 * a + digit_val c) 0 s"

definition spelled_date :: "string \<Rightarrow> date" where
  "spelled_date s = (digits_val (take 4 s), digits_val (take 2 (drop 4 s)), digits_val (drop 6 s))"

definition eight_digits :: "string \<Rightarrow> bool" where
  "eight_digits s = (length s = 8 \<and> list_all is_digit s)"

definition valid_yyyymmdd :: "string \<Rightarrow> bool" where
  "valid_yyyymmdd s = (eight_digits s \<and> valid_date (spelled_date s) \<and> in_bounds (spelled_date s))"



section \<open>Concrete tables\<close>

text \<open>
  Rows for concrete runs. The sub-regions, causes and the foreign region are ASCII
  stand-ins for the Korean names of the files. Two incidents in the target region, on
  1 January and on 15 February 2024, and one in another region:
\<close>

definition fire_jongno :: fire_row where
  "fire_jongno =
     \<lparr>GRNDS_CTPV_NM = Some seoul_teukbyeolsi, GRNDS_SGG_NM = Some ''Jongno'',
      IGTN_DMNT_LCLSF_NM = Some ''electrical'', OCRN_YR = Some 2024, OCRN_MM = Some 1,
      OCRN_YMD = IntV 20240101\<rparr>"

definition fire_gangnam :: fire_row where
  "fire_gangnam =
     \<lparr>GRNDS_CTPV_NM = Some seoul_teukbyeolsi, GRNDS_SGG_NM = Some ''Gangnam'',
      IGTN_DMNT_LCLSF_NM = Some ''careless'', OCRN_YR = Some 2024, OCRN_MM = Some 2,
      OCRN_YMD = IntV 20240215\<rparr>"

definition fire_busan :: fire_row where
  "fire_busan =
     \<lparr>GRNDS_CTPV_NM = Some ''Busan'', GRNDS_SGG_NM = Some ''Haeundae'',
      IGTN_DMNT_LCLSF_NM = Some ''electrical'', OCRN_YR = Some 2024, OCRN_MM = Some 3,
      OCRN_YMD = IntV 20240301\<rparr>"

text \<open>An incident whose year cell is empty in the file:\<close>

definition fire_no_year :: fire_row where
  "fire_no_year = fire_jongno\<lparr>OCRN_YR := None\<rparr>"

text \<open>An incident whose year and month columns say May 2023 and whose date column says
  1 January 2024:\<close>

definition fire_mismatch :: fire_row where
  "fire_mismatch = fire_jongno\<lparr>OCRN_YR := Some 2023, OCRN_MM := Some 5\<rparr>"

text \<open>An incident whose date cell is empty, and one whose date has seven digits:\<close>

definition fire_no_date :: fire_row where
  "fire_no_date = fire_jongno\<lparr>OCRN_YMD := NaN\<rparr>"

definition fire_short_date :: fire_row where
  "fire_short_date = fire_jongno\<lparr>OCRN_YMD := IntV 2024115\<rparr>"

text \<open>Two observations of the target station on 1 January 2024, at 0 and at 4 degrees,
  with 1.5 and 2 millimetres of rain:\<close>

definition weather_cold :: "cell weather_row" where
  "weather_cold =
     \<lparr>jijeommyeong = Some seoul_station, ilsi = StrV ''2024-01-01'', gion = Some 0, seupdo = Some 50,
      gangsuryang = Some (3 / 2)\<rparr>"

definition weather_mild :: "cell weather_row" where
  "weather_mild =
     \<lparr>jijeommyeong = Some seoul_station, ilsi = StrV ''2024-01-01'', gion = Some 4, seupdo = Some 70,
      gangsuryang = Some 2\<rparr>"

chapter \<open>Properties\<close>

section \<open>The reader\<close>

lemma charmap_decode_latin1: "charmap_decode latin1_table errs raw = Inr (map unat raw)"
  by (induction raw) (simp_all add: latin1_table_def)

lemma bytes_decode_latin1: "bytes_decode codecs ''latin1'' errs raw = Inr (map unat raw)"
  by (simp add: bytes_decode_def charmap_decode_latin1)

text \<open>
  Claim C10. latin1 has a code point for every byte, so decoding under it with
  \<^verbatim>\<open>errors="ignore"\<close> gives the text that strict decoding gives, one character per byte and
  none dropped; the text that line 26 decodes for the last-resort parse is therefore the
  text of the fourth candidate of the default list.
\<close>

theorem latin1_ignore_is_strict:
  "bytes_decode codecs ''latin1'' ignore raw = bytes_decode codecs ''latin1'' strict raw
   \<and> bytes_decode codecs ''latin1'' ignore raw = Inr (map unat raw)
   \<and> length (map unat raw) = length raw
   \<and> bytes_decode codecs (default_encodings ! 3) strict raw
       = bytes_decode codecs ''latin1'' ignore raw"
  by (simp add: bytes_decode_latin1 default_encodings_def)

theorem latin1_ignore_is_strict_witness:
  "bytes_decode ascii_codecs ''latin1'' ignore [0xFF, 0x41] = Inr [255, 65]
   \<and> bytes_decode ascii_codecs ''latin1'' strict [0xFF, 0x41] = Inr [255, 65]"
  using latin1_ignore_is_strict [of ascii_codecs "[0xFF, 0x41]"] by auto





section \<open>The region filter\<close>

text \<open>
  Claim C9. Selecting the rows of the target region from a table that is already such a
  selection returns that table.
\<close>

theorem region_filter_idempotent: "select_seoul (select_seoul fire) = select_seoul fire"
  by (simp add: select_seoul_def)

theorem region_filter_idempotent_witness:
  "select_seoul (select_seoul [fire_jongno, fire_busan, fire_gangnam])
     = [fire_jongno, fire_gangnam]"
  using region_filter_idempotent [of "[fire_jongno, fire_busan, fire_gangnam]"]
  by (simp add: select_seoul_def filter_region_def fire_jongno_def fire_busan_def
      fire_gangnam_def seoul_teukbyeolsi_def)

section \<open>Lemmas on the library functions\<close>

subsection \<open>Traversal, grouping, sorting, merging\<close>

lemma traverse_Inr_iff:
  "traverse f xs = Inr ys \<longleftrightarrow> list_all2 (\<lambda>x y. f x = Inr y) xs ys"
proof (induction xs arbitrary: ys)
  case Nil
  show ?case by auto
next
  case (Cons x xs)
  show ?case
  proof (cases ys)
    case Nil
    then show ?thesis by (simp split: sum.splits)
  next
    case (Cons y ys')
    with Cons.IH [of ys'] show ?thesis
      by (auto split: sum.splits)
  qed
qed


lemma traverse_total:
  "(\<exists>e. traverse f xs = Inl e) \<or> (\<exists>ys. traverse f xs = Inr ys)"
  by (cases "traverse f xs") auto


lemma length_map_filter: "length (List.map_filter f xs) = length (filter (\<lambda>r. f r \<noteq> None) xs)"
  by (simp add: List.map_filter_def)

lemma count_list_map_filter:
  "count_list (List.map_filter f xs) = (\<lambda>k. length (filter (\<lambda>r. f r = Some k) xs))"
proof
  fix k
  show "count_list (List.map_filter f xs) k = length (filter (\<lambda>r. f r = Some k) xs)"
    by (induction xs) (auto simp: List.map_filter_def)
qed

lemma keys_groupby: "map fst (groupby by df) = sort (remdups (List.map_filter by df))"
  by (simp add: groupby_def comp_def)

lemma keys_groupby_size: "map fst (groupby_size by df) = sort (remdups (List.map_filter by df))"
  by (simp add: groupby_size_def groupby_def comp_def)

lemma keys_groupby_agg: "map fst (groupby_agg by f df) = sort (remdups (List.map_filter by df))"
  by (simp add: groupby_agg_def groupby_def comp_def)

lemma groupby_size_eq:
  "groupby_size by df =
     map (\<lambda>k. (k, length (filter (\<lambda>r. by r = Some k) df))) (sort (remdups (List.map_filter by df)))"
  by (simp add: groupby_size_def groupby_def comp_def)




lemma sum_groupby_size:
  "sum_list (map snd (groupby_size by df)) = length (filter (\<lambda>r. by r \<noteq> None) df)"
proof -
  let ?ks = "List.map_filter by df"
  have "sum_list (map snd (groupby_size by df)) =
        sum_list (map (count_list ?ks) (sort (remdups ?ks)))"
    by (simp add: groupby_size_eq comp_def count_list_map_filter)
  also have "\<dots> = sum (count_list ?ks) (set (sort (remdups ?ks)))"
    by (rule sum_list_distinct_conv_sum_set) simp
  also have "\<dots> = sum (count_list ?ks) (set ?ks)"
    by simp
  also have "\<dots> = length ?ks"
    by (rule sum_count_set) simp_all
  finally show ?thesis
    by (simp add: length_map_filter)
qed

lemma strict_sorted_keys: "sorted_wrt (<) (sort (remdups (ks :: 'k::linorder list)))"
  by (simp add: strict_sorted_iff)


lemma groupby_agg_strict: "sorted_wrt (\<lambda>a b. fst a < fst b) (groupby_agg by f df)"
proof -
  have "sorted_wrt (<) (map fst (groupby_agg by f df))"
    by (simp only: keys_groupby_agg strict_sorted_keys)
  then show ?thesis by (simp add: sorted_wrt_map)
qed





lemma length_sort_values_desc: "length (sort_values_desc col df) = length df"
  by (simp add: sort_values_desc_def)

lemma set_merge_inner:
  "set (merge_inner lk rk left right) = {(l, r). l \<in> set left \<and> r \<in> set right \<and> lk l = rk r}"
  by (auto simp: merge_inner_def)

lemma merge_inner_empty: "merge_inner lk rk [] right = []" "merge_inner lk rk left [] = []"
  by (simp_all add: merge_inner_def)

lemma keys_merge_inner:
  "(\<lambda>p. lk (fst p)) ` set (merge_inner lk rk left right) = lk ` set left \<inter> rk ` set right"
  by (auto simp: set_merge_inner image_iff) metis

lemma distinct_merge_inner:
  assumes "distinct (map lk left)" "distinct (map rk right)"
  shows "distinct (map (\<lambda>p. lk (fst p)) (merge_inner lk rk left right))"
proof -
  have one: "length (filter (\<lambda>r. rk r = k) right) \<le> 1" for k
    using assms(2) by (induction right) (auto simp: image_iff filter_empty_conv)
  have dist1: "distinct (map (\<lambda>p. lk (fst p)) (map (Pair l) (filter (\<lambda>r. rk r = lk l) right)))" for l
  proof -
    have "map (\<lambda>p. lk (fst p)) (map (Pair l) (filter (\<lambda>r. rk r = lk l) right))
          = replicate (length (filter (\<lambda>r. rk r = lk l) right)) (lk l)"
      by (simp add: comp_def map_replicate_const)
    with one [of "lk l"] show ?thesis
      by (cases "filter (\<lambda>r. rk r = lk l) right") auto
  qed
  from assms(1) show ?thesis
  proof (induction left)
    case Nil
    show ?case by (simp add: merge_inner_def)
  next
    case (Cons l left)
    define hd_rows where "hd_rows = map (Pair l) (filter (\<lambda>r. rk r = lk l) right)"
    define tl_rows where "tl_rows = merge_inner lk rk left right"
    have split: "merge_inner lk rk (l # left) right = hd_rows @ tl_rows"
      by (simp add: merge_inner_def hd_rows_def tl_rows_def)
    have d_tl: "distinct (map (\<lambda>p. lk (fst p)) tl_rows)"
      using Cons by (simp add: tl_rows_def)
    have d_hd: "distinct (map (\<lambda>p. lk (fst p)) hd_rows)"
      using dist1 [of l] by (simp add: hd_rows_def)
    have k_hd: "\<And>p. p \<in> set hd_rows \<Longrightarrow> lk (fst p) = lk l"
      by (auto simp: hd_rows_def)
    have k_tl: "\<And>p. p \<in> set tl_rows \<Longrightarrow> lk (fst p) \<noteq> lk l"
      using Cons.prems by (auto simp: tl_rows_def set_merge_inner) (metis imageI)
    have "set (map (\<lambda>p. lk (fst p)) hd_rows) \<inter> set (map (\<lambda>p. lk (fst p)) tl_rows) = {}"
      using k_hd k_tl by (auto simp: image_iff) metis
    with d_hd d_tl show ?case
      unfolding split by (simp only: map_append distinct_append)
  qed
qed

subsection \<open>The date parser on eight-digit texts\<close>

lemma char_eq_code: "(a = b) = (of_char a = (of_char b :: nat))"
  by simp

lemma re_m_two_digits:
  assumes "is_digit e" "is_digit f"
  shows "re_m (e # f # r) =
     (if 1 \<le> 10 * digit_val e + digit_val f \<and> 10 * digit_val e + digit_val f \<le> 12
      then (10 * digit_val e + digit_val f, r) #
           (if digit_val e = 1 then [(1, f # r)] else [])
      else if digit_val e = 0 then [] else [(digit_val e, f # r)])"
  using assms
  by (auto simp: re_m_def in_range_def is_digit_def digit_val_def less_eq_char_def char_eq_code)

lemma re_d_two_digits:
  assumes "is_digit g" "is_digit h"
  shows "re_d (g # h # r) =
     (if 1 \<le> 10 * digit_val g + digit_val h \<and> 10 * digit_val g + digit_val h \<le> 31
      then (10 * digit_val g + digit_val h, r) #
           (if digit_val g = 0 then [] else [(digit_val g, h # r)])
      else if digit_val g = 0 then [] else [(digit_val g, h # r)])"
  using assms
  by (auto simp: re_d_def in_range_def is_digit_def digit_val_def less_eq_char_def char_eq_code)

lemma re_m_rests:
  assumes "(m, r2) \<in> set (re_m (e # f # r))" "is_digit e" "is_digit f"
  shows "(r2 = r \<and> 1 \<le> 10 * digit_val e + digit_val f \<and> 10 * digit_val e + digit_val f \<le> 12)
         \<or> r2 = f # r"
  using assms by (auto simp: re_m_two_digits split: if_splits)

lemma re_d_rests:
  assumes "(d, r3) \<in> set (re_d (g # h # r))" "is_digit g" "is_digit h"
  shows "(r3 = r \<and> 1 \<le> 10 * digit_val g + digit_val h \<and> 10 * digit_val g + digit_val h \<le> 31)
         \<or> r3 = h # r"
  using assms by (auto simp: re_d_two_digits split: if_splits)

lemma re_d_rest: "(v, r) \<in> set (re_d (x # y # z # t)) \<Longrightarrow> r \<noteq> []"
  by (auto simp: re_d_def split: if_splits)


lemma eight_digits_cases:
  assumes "eight_digits s"
  obtains a b c d e f g h where "s = [a, b, c, d, e, f, g, h]"
    "is_digit a" "is_digit b" "is_digit c" "is_digit d"
    "is_digit e" "is_digit f" "is_digit g" "is_digit h"
proof -
  from assms have len: "length s = 8" and dig: "list_all is_digit s"
    by (simp_all add: eight_digits_def)
  from len obtain a b c d e f g h where s: "s = [a, b, c, d, e, f, g, h]"
    by (auto simp: length_Suc_conv eval_nat_numeral)
  with dig that show thesis by simp
qed

lemma spelled_date_eight:
  "spelled_date [a, b, c, d, e, f, g, h] =
     (1000 * digit_val a + 100 * digit_val b + 10 * digit_val c + digit_val d,
      10 * digit_val e + digit_val f, 10 * digit_val g + digit_val h)"
  by (simp add: spelled_date_def digits_val_def)

lemma digit_val_range: "is_digit c \<Longrightarrow> 0 \<le> digit_val c \<and> digit_val c \<le> 9"
  by (auto simp: is_digit_def in_range_def digit_val_def less_eq_char_def)

lemma strptime_all_short:
  assumes "\<forall>(dt, rest) \<in> set (format_regex_matches s). rest \<noteq> []"
  shows "strptime_Ymd s = Inl ValueError"
  using assms by (cases "format_regex_matches s") (auto simp: strptime_Ymd_def)

lemma re_Y_digits:
  "is_digit a \<Longrightarrow> is_digit b \<Longrightarrow> is_digit c \<Longrightarrow> is_digit d \<Longrightarrow>
   re_Y (a # b # c # d # rest) =
     [(1000 * digit_val a + 100 * digit_val b + 10 * digit_val c + digit_val d, rest)]"
  by simp

lemma strptime_first_match:
  "format_regex_matches s = (dt, []) # rest \<Longrightarrow>
   strptime_Ymd s = (if valid_date dt then Inr dt else Inl ValueError)"
  by (simp add: strptime_Ymd_def)

lemma strptime_eight_list:
  assumes dig: "is_digit a" "is_digit b" "is_digit c" "is_digit d"
      "is_digit e" "is_digit f" "is_digit g" "is_digit h"
    and s: "s = [a, b, c, d, e, f, g, h]"
  shows "strptime_Ymd s =
     (if valid_date (spelled_date s) then Inr (spelled_date s) else Inl ValueError)"
proof -
  define y where "y = 1000 * digit_val a + 100 * digit_val b + 10 * digit_val c + digit_val d"
  define M where "M = 10 * digit_val e + digit_val f"
  define D where "D = 10 * digit_val g + digit_val h"
  have sp: "spelled_date s = (y, M, D)"
    unfolding s spelled_date_eight y_def M_def D_def ..
  have "re_Y s = [(y, [e, f, g, h])]"
    unfolding s y_def by (rule re_Y_digits) (fact dig)+
  then have matches: "format_regex_matches s =
      concat (map (\<lambda>(m, r2). map (\<lambda>(d, r3). ((y, m, d), r3)) (re_d r2)) (re_m [e, f, g, h]))"
    by (simp add: format_regex_matches_def)
  have rm: "re_m [e, f, g, h] =
     (if 1 \<le> M \<and> M \<le> 12
      then (M, [g, h]) # (if digit_val e = 1 then [(1, [f, g, h])] else [])
      else if digit_val e = 0 then [] else [(digit_val e, [f, g, h])])"
    unfolding M_def by (rule re_m_two_digits) (fact dig)+
  have rd: "re_d [g, h] =
     (if 1 \<le> D \<and> D \<le> 31
      then (D, []) # (if digit_val g = 0 then [] else [(digit_val g, [h])])
      else if digit_val g = 0 then [] else [(digit_val g, [h])])"
    unfolding D_def by (rule re_d_two_digits) (fact dig)+
  show ?thesis
  proof (cases "1 \<le> M \<and> M \<le> 12 \<and> 1 \<le> D \<and> D \<le> 31")
    case True
    then have "re_m [e, f, g, h] = (M, [g, h]) # (if digit_val e = 1 then [(1, [f, g, h])] else [])"
      and "re_d [g, h] = (D, []) # (if digit_val g = 0 then [] else [(digit_val g, [h])])"
      by (simp_all only: rm rd if_True simp_thms)
    then have "\<exists>rest. format_regex_matches s = ((y, M, D), []) # rest"
      unfolding matches by simp
    then obtain rest where "format_regex_matches s = ((y, M, D), []) # rest" ..
    from strptime_first_match [OF this] show ?thesis
      by (simp only: sp)
  next
    case False
    have short: "\<forall>(dt, rest) \<in> set (format_regex_matches s). rest \<noteq> []"
    proof (clarify)
      fix y' m' d' assume "((y', m', d'), []) \<in> set (format_regex_matches s)"
      then obtain r2 where m: "(m', r2) \<in> set (re_m [e, f, g, h])"
        and d: "(d', []) \<in> set (re_d r2)"
        unfolding matches by auto
      have "(r2 = [g, h] \<and> 1 \<le> M \<and> M \<le> 12) \<or> r2 = [f, g, h]"
        using re_m_rests [OF m dig(5) dig(6)] unfolding M_def .
      then show False
      proof
        assume "r2 = [f, g, h]"
        with d re_d_rest show False by blast
      next
        assume r2: "r2 = [g, h] \<and> 1 \<le> M \<and> M \<le> 12"
        then have "(d', []) \<in> set (re_d [g, h])"
          using d by simp
        from re_d_rests [OF this dig(7) dig(8)] have "1 \<le> D \<and> D \<le> 31"
          unfolding D_def by simp
        with r2 False show False by simp
      qed
    qed
    have "days_in_month y M \<le> 31"
      by (simp add: days_in_month_def)
    with False have "\<not> valid_date (spelled_date s)"
      unfolding sp valid_date_def year_of_def month_of_def day_of_def by auto
    with strptime_all_short [OF short] show ?thesis by simp
  qed
qed

lemma strptime_eight_digits:
  assumes "eight_digits s"
  shows "strptime_Ymd s =
     (if valid_date (spelled_date s) then Inr (spelled_date s) else Inl ValueError)"
  using assms
proof (rule eight_digits_cases)
  fix a b c d e f g h
  assume "s = [a, b, c, d, e, f, g, h]"
    "is_digit a" "is_digit b" "is_digit c" "is_digit d"
    "is_digit e" "is_digit f" "is_digit g" "is_digit h"
  then show ?thesis
    by (intro strptime_eight_list)
qed

lemma eight_digits_not_null: "eight_digits s \<Longrightarrow> \<not> is_null_text s"
  by (auto simp: eight_digits_def is_null_text_def nat_strings_def)

lemma to_datetime_elem_eight_digits:
  assumes "eight_digits s"
  shows "to_datetime_elem s =
     (if valid_yyyymmdd s then Inr (Some (spelled_date s))
      else if valid_date (spelled_date s) then Inl OutOfBoundsDatetime
      else Inl ValueError)"
  using assms
  by (simp add: to_datetime_elem_def eight_digits_not_null strptime_eight_digits valid_yyyymmdd_def)

subsection \<open>Concrete runs\<close>

lemmas parse_defs = to_datetime_elem_def is_null_text_def nat_strings_def strptime_Ymd_def
  format_regex_matches_def re_m_def re_d_def in_range_def is_digit_def digit_val_def
  valid_date_def year_of_def month_of_def day_of_def days_in_month_def is_leap_def
  in_bounds_def first_midnight_def last_midnight_def

lemmas fire_defs = preprocess_fire_def select_seoul_def filter_region_def ymd_text_def
  infer_dtype_def to_datetime_Ymd_def str_int_def digit_char_def derive_row_def
  groupby_size_def groupby_def List.map_filter_def both_def sort_values_desc_def
  seoul_teukbyeolsi_def

lemmas row_defs = fire_jongno_def fire_gangnam_def fire_busan_def fire_no_year_def
  fire_mismatch_def fire_no_date_def fire_short_date_def

lemma run_two:
  "preprocess_fire [fire_jongno, fire_busan, fire_gangnam] =
     Inr ([derive_row fire_jongno (Some (2024, 1, 1)), derive_row fire_gangnam (Some (2024, 2, 15))],
          [((2024, 1), 1), ((2024, 2), 1)],
          [(''careless'', 1), (''electrical'', 1)],
          [(''Gangnam'', 1), (''Jongno'', 1)])"
  by (simp add: fire_defs parse_defs row_defs)

lemma run_no_year:
  "preprocess_fire [fire_no_year] =
     Inr ([derive_row fire_no_year (Some (2024, 1, 1))], [],
          [(''electrical'', 1)], [(''Jongno'', 1)])"
  by (simp add: fire_defs parse_defs row_defs)

lemma run_mismatch:
  "preprocess_fire [fire_mismatch] =
     Inr ([derive_row fire_mismatch (Some (2024, 1, 1))], [((2023, 5), 1)],
          [(''electrical'', 1)], [(''Jongno'', 1)])"
  by (simp add: fire_defs parse_defs row_defs)

lemma run_no_date:
  "preprocess_fire [fire_no_date] =
     Inr ([derive_row fire_no_date None], [((2024, 1), 1)],
          [(''electrical'', 1)], [(''Jongno'', 1)])"
  by (simp add: fire_defs parse_defs row_defs)

lemma run_short_date:
  "preprocess_fire [fire_short_date] =
     Inr ([derive_row fire_short_date (Some (2024, 11, 5))], [((2024, 1), 1)],
          [(''electrical'', 1)], [(''Jongno'', 1)])"
  by (simp add: fire_defs parse_defs row_defs)

lemma run_float_col:
  "preprocess_fire [fire_jongno, fire_busan\<lparr>OCRN_YMD := NaN\<rparr>] = Inl ValueError"
  by (simp add: fire_defs parse_defs row_defs)

lemmas weather_defs = preprocess_weather_def iso_days_def iso_day_def derive_w_row_def
  groupby_agg_def groupby_def List.map_filter_def both_def agg_weather_def mean_skipna_def
  sum_skipna_def weather_cold_def weather_mild_def seoul_station_def

lemma run_weather:
  "preprocess_weather iso_days [weather_cold, weather_mild] =
     Inr ([derive_w_row weather_cold (Some ((2024, 1, 1), 0)),
           derive_w_row weather_mild (Some ((2024, 1, 1), 0))],
          [((2024, 1), \<lparr>mean_gion = Some 2, mean_seupdo = Some 60, sum_gangsuryang = 7 / 2\<rparr>)],
          [((2024, 1, 1), \<lparr>mean_gion = Some 2, mean_seupdo = Some 60, sum_gangsuryang = 7 / 2\<rparr>)])"
  by (simp add: weather_defs parse_defs)

subsection \<open>The results of \<^verbatim>\<open>preprocess_fire\<close>\<close>

lemma preprocess_fire_Inr:
  "preprocess_fire fire = Inr (seoul, monthly, cause, region) \<longleftrightarrow>
     (\<exists>days. to_datetime_Ymd (map (ymd_text fire) (select_seoul fire)) = Inr days
        \<and> seoul = map2 derive_row (select_seoul fire) days
        \<and> monthly = groupby_size (\<lambda>r. both (yeondo r) (wol r)) seoul
        \<and> cause = sort_values_desc snd (groupby_size IGTN_DMNT_LCLSF_NM seoul)
        \<and> region = sort_values_desc snd (groupby_size GRNDS_SGG_NM seoul))"
  by (auto simp: preprocess_fire_def Let_def split: sum.splits)


lemma to_datetime_Ymd_Inr:
  "to_datetime_Ymd col = Inr days \<longleftrightarrow> list_all2 (\<lambda>s d. to_datetime_elem s = Inr d) col days"
  by (simp add: to_datetime_Ymd_def traverse_Inr_iff)


lemma derived_rows:
  assumes "preprocess_fire fire = Inr (seoul, monthly, cause, region)"
  shows "length seoul = length (select_seoul fire)"
    and "r \<in> set seoul \<Longrightarrow>
           \<exists>r0 d. r0 \<in> set (select_seoul fire) \<and> to_datetime_elem (ymd_text fire r0) = Inr d
                  \<and> r = derive_row r0 d"
proof -
  from assms obtain days where
    days: "list_all2 (\<lambda>s d. to_datetime_elem s = Inr d) (map (ymd_text fire) (select_seoul fire)) days"
    and seoul: "seoul = map2 derive_row (select_seoul fire) days"
    by (auto simp: preprocess_fire_Inr to_datetime_Ymd_Inr)
  from days have len: "length days = length (select_seoul fire)"
    by (auto dest: list_all2_lengthD)
  then show "length seoul = length (select_seoul fire)"
    by (simp add: seoul)
  assume "r \<in> set seoul"
  then obtain r0 d where rd: "(r0, d) \<in> set (zip (select_seoul fire) days)" and r: "r = derive_row r0 d"
    by (auto simp: seoul)
  from rd obtain i where i: "i < length (select_seoul fire)" "r0 = select_seoul fire ! i" "d = days ! i"
    by (auto simp: set_zip)
  with days have "to_datetime_elem (ymd_text fire r0) = Inr d"
    by (auto simp: list_all2_conv_all_nth)
  moreover from i have "r0 \<in> set (select_seoul fire)"
    by simp
  ultimately show "\<exists>r0 d. r0 \<in> set (select_seoul fire) \<and> to_datetime_elem (ymd_text fire r0) = Inr d
                  \<and> r = derive_row r0 d"
    using r by blast
qed


lemma preprocess_fire_tables:
  assumes "preprocess_fire fire = Inr (seoul, monthly, cause, region)"
  shows "monthly = groupby_size (\<lambda>r. both (yeondo r) (wol r)) seoul"
    and "cause = sort_values_desc snd (groupby_size IGTN_DMNT_LCLSF_NM seoul)"
    and "region = sort_values_desc snd (groupby_size GRNDS_SGG_NM seoul)"
  using assms unfolding preprocess_fire_Inr by blast+

section \<open>The incident pipeline\<close>

text \<open>
  Claim C3, as the code has it. After a successful ingestion the counts of the monthly
  summary add up to the number of derived rows that have both a year and a month: the
  grouping drops a row whose key is missing. When no derived row lacks its year or its
  month, the counts add up to the number of rows of the filtered table, and the derived
  table has one row for every row of the selection.
\<close>

theorem monthly_counts_sum:
  assumes "preprocess_fire fire = Inr (seoul, monthly, cause, region)"
  shows "sum_list (map snd monthly)
           = length (filter (\<lambda>r. yeondo r \<noteq> None \<and> wol r \<noteq> None) seoul)
         \<and> ((\<forall>r\<in>set seoul. yeondo r \<noteq> None \<and> wol r \<noteq> None)
              \<longrightarrow> sum_list (map snd monthly) = length seoul)
         \<and> length seoul = length (select_seoul fire)"
proof -
  have m: "monthly = groupby_size (\<lambda>r. both (yeondo r) (wol r)) seoul"
    using assms by (rule preprocess_fire_tables)
  have b: "(both x y \<noteq> None) = (x \<noteq> None \<and> y \<noteq> None)" for x :: "int option" and y :: "int option"
    by (simp add: both_def split: option.splits)
  have 1: "sum_list (map snd monthly)
           = length (filter (\<lambda>r. yeondo r \<noteq> None \<and> wol r \<noteq> None) seoul)"
    unfolding m sum_groupby_size by (simp only: b)
  have 2: "sum_list (map snd monthly) = length seoul"
    if "\<forall>r\<in>set seoul. yeondo r \<noteq> None \<and> wol r \<noteq> None"
  proof -
    from that have "filter (\<lambda>r. yeondo r \<noteq> None \<and> wol r \<noteq> None) seoul = seoul"
      by (simp only: filter_id_conv)
    with 1 show ?thesis by simp
  qed
  from 1 2 derived_rows(1) [OF assms] show ?thesis by blast
qed

theorem monthly_counts_sum_witness:
  "sum_list (map snd [((2024 :: int, 1 :: int), 1 :: nat), ((2024, 2), 1)]) = (2 :: nat)
   \<and> length [derive_row fire_jongno (Some (2024, 1, 1)),
              derive_row fire_gangnam (Some (2024, 2, 15))]
       = length (select_seoul [fire_jongno, fire_busan, fire_gangnam])"
  using monthly_counts_sum [OF run_two] by simp

text \<open>One selected incident whose year cell is empty: the ingestion succeeds with one
  derived row and an empty monthly summary, so the counts add up to 0, not to 1.\<close>

theorem monthly_counts_drop_missing_year:
  "preprocess_fire [fire_no_year] =
     Inr ([derive_row fire_no_year (Some (2024, 1, 1))], [],
          [(''electrical'', 1)], [(''Jongno'', 1)])
   \<and> sum_list (map snd ([] :: ((int \<times> int) \<times> nat) list))
       \<noteq> length [derive_row fire_no_year (Some (2024, 1, 1))]"
  by (simp add: fire_defs parse_defs row_defs)


text \<open>
  Claim C5, as the code has it. In every row of the derived table the year and the month
  are the file's own year and month columns, and the day of occurrence is the parse of
  the file's date column. The year and month of the day of occurrence equal the row's year
  and month whenever the date text has eight digits and the file's year and month columns
  hold the year and month those digits spell; nothing in the code makes the three columns
  agree.
\<close>

theorem derived_year_month:
  assumes "preprocess_fire fire = Inr (seoul, monthly, cause, region)" and "r \<in> set seoul"
  shows "yeondo r = OCRN_YR r \<and> wol r = OCRN_MM r
     \<and> to_datetime_elem (astype_str (infer_dtype (map OCRN_YMD fire)) (OCRN_YMD r))
         = Inr (balsaengil r)
     \<and> (eight_digits (astype_str (infer_dtype (map OCRN_YMD fire)) (OCRN_YMD r))
        \<and> OCRN_YR r
            = Some (year_of (spelled_date (astype_str (infer_dtype (map OCRN_YMD fire)) (OCRN_YMD r))))
        \<and> OCRN_MM r
            = Some (month_of (spelled_date (astype_str (infer_dtype (map OCRN_YMD fire)) (OCRN_YMD r))))
        \<longrightarrow> (\<exists>d. balsaengil r = Some d \<and> yeondo r = Some (year_of d)
                 \<and> wol r = Some (month_of d)))"
proof -
  from derived_rows(2) [OF assms] obtain r0 d where
    p: "to_datetime_elem (ymd_text fire r0) = Inr d" and r: "r = derive_row r0 d"
    by blast
  define T where "T = astype_str (infer_dtype (map OCRN_YMD fire)) (OCRN_YMD r)"
  have f: "yeondo r = OCRN_YR r" "wol r = OCRN_MM r" "balsaengil r = d" "OCRN_YMD r = OCRN_YMD r0"
    by (simp_all add: r derive_row_def)
  have t: "to_datetime_elem T = Inr (balsaengil r)"
    using p by (simp add: T_def f ymd_text_def)
  have "balsaengil r = Some (spelled_date T)" if "eight_digits T"
    using t to_datetime_elem_eight_digits [OF that] by (simp split: if_splits)
  with f t show ?thesis
    unfolding T_def [symmetric] by simp
qed

theorem derived_year_month_witness:
  "yeondo (derive_row fire_jongno (Some (2024, 1, 1))) = Some 2024
   \<and> wol (derive_row fire_jongno (Some (2024, 1, 1))) = Some 1
   \<and> balsaengil (derive_row fire_jongno (Some (2024, 1, 1))) = Some (2024, 1, 1)"
  using derived_year_month [OF run_two, of "derive_row fire_jongno (Some (2024, 1, 1))"]
  by (simp add: derive_row_def fire_jongno_def)

text \<open>An incident whose columns say May 2023 and whose date says 1 January 2024 is
  ingested as it is: day of occurrence in 2024, year 2023, month 5.\<close>

theorem derived_year_month_mismatch:
  "preprocess_fire [fire_mismatch] =
     Inr ([derive_row fire_mismatch (Some (2024, 1, 1))], [((2023, 5), 1)],
          [(''electrical'', 1)], [(''Jongno'', 1)])
   \<and> balsaengil (derive_row fire_mismatch (Some (2024, 1, 1))) = Some (2024, 1, 1)
   \<and> yeondo (derive_row fire_mismatch (Some (2024, 1, 1))) = Some 2023
   \<and> wol (derive_row fire_mismatch (Some (2024, 1, 1))) = Some 5
   \<and> year_of (2024, 1, 1) \<noteq> 2023 \<and> month_of (2024, 1, 1) \<noteq> 5"
  by (simp add: fire_defs parse_defs row_defs)






lemma distinct_keys_groupby_size: "distinct (map fst (groupby_size by df))"
  by (simp add: keys_groupby_size)

lemma distinct_keys_groupby_agg: "distinct (map fst (groupby_agg by f df))"
  by (simp add: keys_groupby_agg)




lemma daily_fire_Nil: "daily_fire [] = []"
  by (simp add: daily_fire_def groupby_size_def groupby_def List.map_filter_def)

lemma make_daily_merge_Nil: "make_daily_merge [] daily_weather = []"
  by (simp add: make_daily_merge_def daily_fire_Nil merge_inner_def)

lemma monthly_merge_Nil: "monthly_merge [] monthly_weather = []"
  by (simp add: monthly_merge_def merge_inner_def)

text \<open>
  Claim C8. When no row of the incident table is in the target region, the ingestion
  returns four empty tables and raises nothing, the daily counts of the empty derived
  table are empty, and both joins with any weather summary are empty; in \<^verbatim>\<open>main\<close>, when
  the weather table is preprocessed without error, both merged tables are empty.
\<close>

theorem empty_region_gives_empty_tables:
  assumes "select_seoul fire = []"
  shows "preprocess_fire fire = Inr ([], [], [], [])
     \<and> daily_fire ([] :: seoul_row list) = []
     \<and> make_daily_merge ([] :: seoul_row list) daily_weather = []
     \<and> monthly_merge [] monthly_weather = []
     \<and> (preprocess_weather to_datetime weather = Inr (w_all, monthly_w, daily_w)
          \<longrightarrow> main_merges to_datetime fire weather = Inr ([], []))"
proof -
  have p: "preprocess_fire fire = Inr ([], [], [], [])"
    by (simp add: preprocess_fire_def assms to_datetime_Ymd_def groupby_size_def groupby_def
        List.map_filter_def sort_values_desc_def)
  then show ?thesis
    by (simp add: main_merges_def daily_fire_Nil make_daily_merge_Nil monthly_merge_Nil)
qed

theorem empty_region_gives_empty_tables_witness:
  "select_seoul [fire_busan] = []
   \<and> preprocess_fire [fire_busan] = Inr ([], [], [], [])
   \<and> main_merges iso_days [fire_busan] [weather_cold, weather_mild] = Inr ([], [])"
proof -
  have e: "select_seoul [fire_busan] = []"
    by (simp add: select_seoul_def filter_region_def fire_busan_def seoul_teukbyeolsi_def)
  from empty_region_gives_empty_tables
    [OF e, where to_datetime = iso_days and weather = "[weather_cold, weather_mild]"
       and daily_weather = "[] :: (date \<times> weather_agg) list"
       and monthly_weather = "[] :: ((int \<times> int) \<times> weather_agg) list"]
    run_weather e
  show ?thesis by blast
qed

section \<open>The weather summary and the joins\<close>

lemma preprocess_weather_Inr:
  "preprocess_weather to_datetime weather = Inr (w, monthly, daily) \<Longrightarrow>
     monthly = groupby_agg (\<lambda>r. both (w_yeondo r) (w_wol r)) agg_weather w
     \<and> daily = groupby_agg naljja agg_weather w"
  by (auto simp: preprocess_weather_def Let_def split: sum.splits)








lemma set_make_daily_merge:
  "set (make_daily_merge seoul_fire daily_weather) =
     {(l, r). l \<in> set (daily_fire seoul_fire) \<and> r \<in> set daily_weather \<and> fst l = fst r}"
  by (simp add: make_daily_merge_def set_merge_inner)

lemma distinct_daily_fire: "distinct (map fst (daily_fire seoul_fire))"
  by (simp add: daily_fire_def distinct_keys_groupby_size)

lemma distinct_make_daily_merge:
  "distinct (map fst daily_weather) \<Longrightarrow>
   distinct (map (\<lambda>p. fst (fst p)) (make_daily_merge seoul_fire daily_weather))"
  unfolding make_daily_merge_def
  using distinct_daily_fire by (rule distinct_merge_inner)

lemma distinct_monthly_merge:
  "distinct (map fst monthly_fire) \<Longrightarrow> distinct (map fst monthly_weather) \<Longrightarrow>
   distinct (map (\<lambda>p. fst (fst p)) (monthly_merge monthly_fire monthly_weather))"
  unfolding monthly_merge_def by (rule distinct_merge_inner)

text \<open>
  Claim C1. The daily merge holds exactly the pairs of a daily incident count and a daily
  weather row of the same date, and the monthly merge the pairs of a monthly count and a
  monthly weather row of the same year and month; a merged row is the pair of its two
  rows, so it carries every column of both. The keys of a merge are the keys present in
  both inputs: a key of one input only does not occur. Summaries have one row per key, and
  then so has the merge, as have both merges of \<^verbatim>\<open>main\<close>. When an input is empty the merge is
  empty.
\<close>

theorem inner_join_keys:
  "set (make_daily_merge seoul_fire daily_weather) =
     {(l, r). l \<in> set (daily_fire seoul_fire) \<and> r \<in> set daily_weather \<and> fst l = fst r}
   \<and> (\<lambda>p. fst (fst p)) ` set (make_daily_merge seoul_fire daily_weather)
       = fst ` set (daily_fire seoul_fire) \<inter> fst ` set daily_weather
   \<and> (distinct (map fst daily_weather)
        \<longrightarrow> distinct (map (\<lambda>p. fst (fst p)) (make_daily_merge seoul_fire daily_weather)))
   \<and> (seoul_fire = [] \<or> daily_fire seoul_fire = [] \<or> daily_weather = []
        \<longrightarrow> make_daily_merge seoul_fire daily_weather = [])
   \<and> set (monthly_merge monthly_fire monthly_weather) =
       {(l, r). l \<in> set monthly_fire \<and> r \<in> set monthly_weather \<and> fst l = fst r}
   \<and> (\<lambda>p. fst (fst p)) ` set (monthly_merge monthly_fire monthly_weather)
       = fst ` set monthly_fire \<inter> fst ` set monthly_weather
   \<and> (distinct (map fst monthly_fire) \<and> distinct (map fst monthly_weather)
        \<longrightarrow> distinct (map (\<lambda>p. fst (fst p)) (monthly_merge monthly_fire monthly_weather)))
   \<and> (monthly_fire = [] \<or> monthly_weather = []
        \<longrightarrow> monthly_merge monthly_fire monthly_weather = [])
   \<and> (main_merges to_datetime fire weather = Inr (mm, dm)
        \<longrightarrow> distinct (map (\<lambda>p. fst (fst p)) mm) \<and> distinct (map (\<lambda>p. fst (fst p)) dm))"
proof -
  have d1: "set (make_daily_merge seoul_fire daily_weather) =
     {(l, r). l \<in> set (daily_fire seoul_fire) \<and> r \<in> set daily_weather \<and> fst l = fst r}"
    by (rule set_make_daily_merge)
  have d2: "(\<lambda>p. fst (fst p)) ` set (make_daily_merge seoul_fire daily_weather)
       = fst ` set (daily_fire seoul_fire) \<inter> fst ` set daily_weather"
    unfolding make_daily_merge_def by (rule keys_merge_inner)
  have d3: "distinct (map (\<lambda>p. fst (fst p)) (make_daily_merge seoul_fire daily_weather))"
    if "distinct (map fst daily_weather)"
    using that by (rule distinct_make_daily_merge)
  have d4: "make_daily_merge seoul_fire daily_weather = []"
    if "seoul_fire = [] \<or> daily_fire seoul_fire = [] \<or> daily_weather = []"
    using that by (auto simp: make_daily_merge_def merge_inner_empty daily_fire_Nil)
  have m1: "set (monthly_merge monthly_fire monthly_weather) =
       {(l, r). l \<in> set monthly_fire \<and> r \<in> set monthly_weather \<and> fst l = fst r}"
    by (simp add: monthly_merge_def set_merge_inner)
  have m2: "(\<lambda>p. fst (fst p)) ` set (monthly_merge monthly_fire monthly_weather)
       = fst ` set monthly_fire \<inter> fst ` set monthly_weather"
    unfolding monthly_merge_def by (rule keys_merge_inner)
  have m3: "distinct (map (\<lambda>p. fst (fst p)) (monthly_merge monthly_fire monthly_weather))"
    if "distinct (map fst monthly_fire)" "distinct (map fst monthly_weather)"
    using that by (rule distinct_monthly_merge)
  have m4: "monthly_merge monthly_fire monthly_weather = []"
    if "monthly_fire = [] \<or> monthly_weather = []"
    using that by (auto simp: monthly_merge_def merge_inner_empty)
  have p: "distinct (map (\<lambda>p. fst (fst p)) mm) \<and> distinct (map (\<lambda>p. fst (fst p)) dm)"
    if "main_merges to_datetime fire weather = Inr (mm, dm)"
  proof -
    from that obtain sf mf cf rf w mw dw where
      f: "preprocess_fire fire = Inr (sf, mf, cf, rf)"
      and ww: "preprocess_weather to_datetime weather = Inr (w, mw, dw)"
      and mm: "mm = monthly_merge mf mw" and dm: "dm = make_daily_merge sf dw"
      by (auto simp: main_merges_def split: sum.splits)
    from preprocess_fire_tables(1) [OF f] have "distinct (map fst mf)"
      by (simp add: distinct_keys_groupby_size)
    moreover from preprocess_weather_Inr [OF ww]
    have "distinct (map fst mw)" "distinct (map fst dw)"
      by (simp_all add: distinct_keys_groupby_agg)
    ultimately show ?thesis
      unfolding mm dm by (simp add: distinct_make_daily_merge distinct_monthly_merge)
  qed
  from d1 d2 d3 d4 m1 m2 m3 m4 p show ?thesis by blast
qed


theorem inner_join_keys_witness:
  "distinct (map fst [((2024 :: int, 1 :: int, 1 :: int),
       \<lparr>mean_gion = Some 2, mean_seupdo = Some 60, sum_gangsuryang = 7 / 2\<rparr>)])
   \<and> make_daily_merge
        [derive_row fire_jongno (Some (2024, 1, 1)), derive_row fire_gangnam (Some (2024, 2, 15))]
        [((2024, 1, 1), \<lparr>mean_gion = Some 2, mean_seupdo = Some 60, sum_gangsuryang = 7 / 2\<rparr>)]
       = [(((2024, 1, 1), 1),
           ((2024, 1, 1), \<lparr>mean_gion = Some 2, mean_seupdo = Some 60, sum_gangsuryang = 7 / 2\<rparr>))]
   \<and> monthly_merge [((2024, 1), 1), ((2024, 2), 1)]
        [((2024, 1), \<lparr>mean_gion = Some 2, mean_seupdo = Some 60, sum_gangsuryang = 7 / 2\<rparr>)]
       = [(((2024, 1), 1),
           ((2024, 1), \<lparr>mean_gion = Some 2, mean_seupdo = Some 60, sum_gangsuryang = 7 / 2\<rparr>))]"
  using inner_join_keys
    [where seoul_fire = "[derive_row fire_jongno (Some (2024, 1, 1)),
                          derive_row fire_gangnam (Some (2024, 2, 15))]"
       and daily_weather = "[((2024, 1, 1),
             \<lparr>mean_gion = Some 2, mean_seupdo = Some 60, sum_gangsuryang = 7 / 2\<rparr>)]"
       and monthly_fire = "[((2024, 1), 1), ((2024, 2), 1)]"
       and monthly_weather = "[((2024, 1),
             \<lparr>mean_gion = Some 2, mean_seupdo = Some 60, sum_gangsuryang = 7 / 2\<rparr>)]"]
  by (simp add: make_daily_merge_def monthly_merge_def daily_fire_def groupby_size_def groupby_def
      List.map_filter_def merge_inner_def derive_row_def)

end
